theory Spec2Isabelle
  imports Complex_Main "HOL-Library.Sublist"
begin

section \<open>Data model\<close>

text \<open>
  The two mapped classes of \<^verbatim>\<open>investor_calculator.py\<close>. \<^verbatim>\<open>Company\<close> has the primary key
  \<^verbatim>\<open>ticker\<close> and two nullable string columns; \<^verbatim>\<open>Financial\<close> has the primary key
  \<^verbatim>\<open>ticker\<close> and nine nullable \<^verbatim>\<open>Float\<close> columns. A nullable column is an \<open>option\<close>,
  with \<open>None\<close> for Python's \<^verbatim>\<open>None\<close>. A Python float is modelled as a \<open>real\<close>: the
  rounding of the machine arithmetic and the special values (infinities, not-a-number) are
  outside this model, the tests against \<^verbatim>\<open>None\<close> and zero are inside it.
\<close>

record company =
  ticker :: string
  name :: "string option"
  sector :: "string option"

record financial =
  ticker :: string
  ebitda :: "real option"
  sales :: "real option"
  net_profit :: "real option"
  market_price :: "real option"
  net_debt :: "real option"
  assets :: "real option"
  equity :: "real option"
  cash_equivalents :: "real option"
  liabilities :: "real option"

text \<open>
  The database: one list of rows per table, in the order in which a query without
  \<^verbatim>\<open>order_by\<close> iterates over them.
\<close>

record store =
  companies :: "company list"
  financials :: "financial list"

text \<open>The exceptions that the modelled code can raise, and the lines it prints.\<close>

datatype py_error = TypeError | ValueError | KeyError | ZeroDivisionError
  | IntegrityError | OperationalError

datatype message =
    Company_not_found
  | Company_choice nat "string option"
  | Invalid_selection
  | Invalid_input
  | No_financial_data
  | Division_by_zero_message
  | Company_header string "string option"
  | Ratio_line string "real option"
  | An_error_occurred py_error
  | Company_created
  | Company_updated
  | Company_deleted
  | Error_clearing py_error
  | Csv_files_not_found
  | Data_inserted
  | Error_inserting_data py_error
  | Invalid_metric
  | Top_header string
  | Top_line string real
  | Error_calculating string py_error

text \<open>
  Sequencing of steps that may raise: the first exception ends the sequence, as it leaves a
  \<^verbatim>\<open>try\<close> block.
\<close>

definition try_bind :: "'e + 'a \<Rightarrow> ('a \<Rightarrow> 'e + 'b) \<Rightarrow> 'e + 'b" where
  "try_bind r k = (case r of Inl e \<Rightarrow> Inl e | Inr v \<Rightarrow> k v)"

fun try_all :: "('e + 'a) list \<Rightarrow> 'e + 'a list" where
  "try_all [] = Inr []"
| "try_all (r # rs) =
     (case r of
        Inl e \<Rightarrow> Inl e
      | Inr v \<Rightarrow> (case try_all rs of Inl e \<Rightarrow> Inl e | Inr vs \<Rightarrow> Inr (v # vs)))"

section \<open>Ratio engine\<close>

text \<open>
  Truth value of a column in a Python condition: \<^verbatim>\<open>None\<close> and \<^verbatim>\<open>0.0\<close> are false, every
  other float is true.
\<close>

definition truthy :: "real option \<Rightarrow> bool" where
  "truthy x = (case x of None \<Rightarrow> False | Some v \<Rightarrow> v \<noteq> 0)"

text \<open>
  Python's \<^verbatim>\<open>a / b\<close> on two columns: an operand that is \<^verbatim>\<open>None\<close> raises
  \<^verbatim>\<open>TypeError\<close>, a float divided by zero raises \<^verbatim>\<open>ZeroDivisionError\<close>.
\<close>

fun truediv :: "real option \<Rightarrow> real option \<Rightarrow> py_error + real" where
  "truediv (Some a) (Some b) = (if b = 0 then Inl ZeroDivisionError else Inr (a / b))"
| "truediv _ _ = Inl TypeError"

text \<open>The conditional expression \<^verbatim>\<open>num / den if den else None\<close>.\<close>

definition ratio :: "real option \<Rightarrow> real option \<Rightarrow> py_error + real option" where
  "ratio num den =
     (if truthy den then try_bind (truediv num den) (\<lambda>v. Inr (Some v)) else Inr None)"

datatype ratio_name = PE | PS | PB | ND_EBITDA | ROE | ROA | LA

text \<open>The seven assignments of \<^verbatim>\<open>read_company\<close>, in the order of the source.\<close>

fun ratio_of :: "ratio_name \<Rightarrow> financial \<Rightarrow> py_error + real option" where
  "ratio_of PE fin = ratio (market_price fin) (net_profit fin)"
| "ratio_of PS fin = ratio (market_price fin) (sales fin)"
| "ratio_of PB fin = ratio (market_price fin) (assets fin)"
| "ratio_of ND_EBITDA fin = ratio (net_debt fin) (ebitda fin)"
| "ratio_of ROE fin = ratio (net_profit fin) (equity fin)"
| "ratio_of ROA fin = ratio (net_profit fin) (assets fin)"
| "ratio_of LA fin = ratio (liabilities fin) (assets fin)"

fun label :: "ratio_name \<Rightarrow> string" where
  "label PE = ''P/E''"
| "label PS = ''P/S''"
| "label PB = ''P/B''"
| "label ND_EBITDA = ''ND/EBITDA''"
| "label ROE = ''ROE''"
| "label ROA = ''ROA''"
| "label LA = ''L/A''"

definition all_ratios :: "ratio_name list" where
  "all_ratios = [PE, PS, PB, ND_EBITDA, ROE, ROA, LA]"

text \<open>
  The table of the specification (section 4.4): numerator and denominator field of each
  ratio. These two functions follow the specification, \<open>ratio_of\<close> follows the code.
\<close>

fun spec_numerator :: "ratio_name \<Rightarrow> financial \<Rightarrow> real option" where
  "spec_numerator PE fin = market_price fin"
| "spec_numerator PS fin = market_price fin"
| "spec_numerator PB fin = market_price fin"
| "spec_numerator ND_EBITDA fin = net_debt fin"
| "spec_numerator ROE fin = net_profit fin"
| "spec_numerator ROA fin = net_profit fin"
| "spec_numerator LA fin = liabilities fin"

fun spec_denominator :: "ratio_name \<Rightarrow> financial \<Rightarrow> real option" where
  "spec_denominator PE fin = net_profit fin"
| "spec_denominator PS fin = sales fin"
| "spec_denominator PB fin = assets fin"
| "spec_denominator ND_EBITDA fin = ebitda fin"
| "spec_denominator ROE fin = equity fin"
| "spec_denominator ROA fin = assets fin"
| "spec_denominator LA fin = assets fin"

section \<open>Record operations: search and read\<close>

text \<open>
  \<^verbatim>\<open>company_search\<close>. The database's case-insensitive pattern match is the parameter
  \<open>ilike\<close> (pattern, then the nullable name column); \<open>company_name\<close> is the line
  typed by the user and \<open>company_idx\<close> the value of \<^verbatim>\<open>int(input(...))\<close>, \<open>None\<close> when
  that raises \<^verbatim>\<open>ValueError\<close>. The result is the printed lines and the selected company.
\<close>

definition company_search ::
  "(string \<Rightarrow> string option \<Rightarrow> bool) \<Rightarrow> string \<Rightarrow> int option \<Rightarrow> company list
     \<Rightarrow> message list \<times> company option" where
  "company_search ilike company_name company_idx table =
     (let found = filter (\<lambda>c. ilike (''%'' @ company_name @ ''%'') (name c)) table in
      if found = [] then ([Company_not_found], None)
      else
        (let listing = map (\<lambda>(idx, c). Company_choice idx (name c))
                         (zip [0..<length found] found) in
         case company_idx of
           None \<Rightarrow> (listing @ [Invalid_input], None)
         | Some i \<Rightarrow>
             if i < 0 \<or> i \<ge> int (length found) then (listing @ [Invalid_selection], None)
             else (listing, Some (found ! nat i))))"

text \<open>
  The query \<^verbatim>\<open>session.query(Financial).filter(Financial.ticker == t).first()\<close>.
\<close>

definition financial_row :: "string \<Rightarrow> store \<Rightarrow> financial option" where
  "financial_row t s = find (\<lambda>f. financial.ticker f = t) (financials s)"

definition company_row :: "string \<Rightarrow> store \<Rightarrow> company option" where
  "company_row t s = find (\<lambda>c. company.ticker c = t) (companies s)"

text \<open>
  \<^verbatim>\<open>read_company\<close>, as the lines it prints. The inner handler catches
  \<^verbatim>\<open>ZeroDivisionError\<close> only; any other exception reaches the outer handler. The
  two-decimal formatting of a displayed value is not modelled: a line carries the value.
\<close>

definition read_company ::
  "(string \<Rightarrow> string option \<Rightarrow> bool) \<Rightarrow> string \<Rightarrow> int option \<Rightarrow> store \<Rightarrow> message list" where
  "read_company ilike company_name company_idx s =
     (case company_search ilike company_name company_idx (companies s) of
        (shown, None) \<Rightarrow> shown
      | (shown, Some selected_company) \<Rightarrow>
          shown @
          (case financial_row (company.ticker selected_company) s of
             None \<Rightarrow> [No_financial_data]
           | Some fin \<Rightarrow>
               (case try_all (map (\<lambda>r. ratio_of r fin) all_ratios) of
                  Inl ZeroDivisionError \<Rightarrow> [Division_by_zero_message]
                | Inl e \<Rightarrow> [An_error_occurred e]
                | Inr values \<Rightarrow>
                    Company_header (company.ticker selected_company) (name selected_company)
                      # map (\<lambda>(r, v). Ratio_line (label r) v) (zip all_ratios values))))"

section \<open>Storage gateway\<close>

text \<open>
  A session works on a copy of the store: \<^verbatim>\<open>commit\<close> makes the copy the new store,
  \<^verbatim>\<open>rollback\<close> returns to the store as it was. Any database call can raise; which
  calls do is the parameter \<open>fails\<close>, a predicate on the kinds of call below.
\<close>

datatype db_step = Delete_financial_rows | Delete_company_rows | Merge_company
  | Merge_financial | Delete_company | Commit

definition attempt :: "(db_step \<Rightarrow> bool) \<Rightarrow> db_step \<Rightarrow> 'a \<Rightarrow> py_error + 'a" where
  "attempt fails call v = (if fails call then Inl OperationalError else Inr v)"

text \<open>
  \<^verbatim>\<open>session.merge\<close> on a table with primary key \<open>key\<close>: a row with the key of the
  given object is overwritten where it stands, otherwise the object is inserted.
\<close>

definition merge_row :: "('r \<Rightarrow> string) \<Rightarrow> 'r \<Rightarrow> 'r list \<Rightarrow> 'r list" where
  "merge_row key r table =
     (if list_ex (\<lambda>x. key x = key r) table
      then map (\<lambda>x. if key x = key r then r else x) table
      else table @ [r])"

definition session_merge_company :: "(db_step \<Rightarrow> bool) \<Rightarrow> company \<Rightarrow> store \<Rightarrow> py_error + store" where
  "session_merge_company fails c w =
     attempt fails Merge_company (w\<lparr>companies := merge_row company.ticker c (companies w)\<rparr>)"

definition session_merge_financial ::
  "(db_step \<Rightarrow> bool) \<Rightarrow> financial \<Rightarrow> store \<Rightarrow> py_error + store" where
  "session_merge_financial fails f w =
     attempt fails Merge_financial (w\<lparr>financials := merge_row financial.ticker f (financials w)\<rparr>)"

text \<open>
  \<^verbatim>\<open>session.delete(company)\<close>. The relationship \<^verbatim>\<open>Company.financials\<close> is declared with
  \<^verbatim>\<open>cascade='all, delete-orphan'\<close>, so the session deletes the financial row of the same
  ticker together with the company row.
\<close>

definition session_delete :: "(db_step \<Rightarrow> bool) \<Rightarrow> company \<Rightarrow> store \<Rightarrow> py_error + store" where
  "session_delete fails c w =
     attempt fails Delete_company
       \<lparr>companies = filter (\<lambda>x. company.ticker x \<noteq> company.ticker c) (companies w),
        financials = filter (\<lambda>f. financial.ticker f \<noteq> company.ticker c) (financials w)\<rparr>"

definition query_financial_delete :: "(db_step \<Rightarrow> bool) \<Rightarrow> store \<Rightarrow> py_error + store" where
  "query_financial_delete fails w = attempt fails Delete_financial_rows (w\<lparr>financials := []\<rparr>)"

definition query_company_delete :: "(db_step \<Rightarrow> bool) \<Rightarrow> store \<Rightarrow> py_error + store" where
  "query_company_delete fails w = attempt fails Delete_company_rows (w\<lparr>companies := []\<rparr>)"

definition session_commit :: "(db_step \<Rightarrow> bool) \<Rightarrow> store \<Rightarrow> py_error + store" where
  "session_commit fails w = attempt fails Commit w"

text \<open>\<^verbatim>\<open>clear_database\<close>: the new store and the printed lines.\<close>

definition clear_database :: "(db_step \<Rightarrow> bool) \<Rightarrow> store \<Rightarrow> store \<times> message list" where
  "clear_database fails s =
     (case try_bind (try_bind (query_financial_delete fails s) (query_company_delete fails))
             (session_commit fails) of
        Inr s' \<Rightarrow> (s', [])
      | Inl e \<Rightarrow> (s, [Error_clearing e]))"

text \<open>
  The primary-key constraints of the schema: no two rows of a table have the same ticker.
\<close>

definition primary_keys :: "store \<Rightarrow> bool" where
  "primary_keys s \<longleftrightarrow>
     distinct (map company.ticker (companies s)) \<and> distinct (map financial.ticker (financials s))"

section \<open>Bulk loader\<close>

text \<open>
  A row of \<^verbatim>\<open>csv.DictReader\<close> is a dictionary from column names to cells; the cell of a
  column that the line is too short for is \<^verbatim>\<open>None\<close>. \<open>row k = None\<close> says that the
  key is absent, \<open>row k = Some None\<close> that its cell is \<^verbatim>\<open>None\<close>.
\<close>

type_synonym csv_row = "string \<rightharpoonup> string option"

definition row_get :: "csv_row \<Rightarrow> string \<Rightarrow> string option" where
  "row_get row k = (case row k of None \<Rightarrow> None | Some cell \<Rightarrow> cell)"

text \<open>
  The two input files; \<open>None\<close> for a file that does not exist.
\<close>

record data_files =
  companies_csv :: "csv_row list option"
  financial_csv :: "csv_row list option"

text \<open>
  \<^verbatim>\<open>float(row.get(k, 0)) if row.get(k) else None\<close>. Python's \<^verbatim>\<open>float\<close> on a string is
  the parameter \<open>py_float\<close>, \<open>None\<close> where it raises \<^verbatim>\<open>ValueError\<close>. The condition
  is false for a missing cell and for the empty string.
\<close>

definition float_cell ::
  "(string \<Rightarrow> real option) \<Rightarrow> csv_row \<Rightarrow> string \<Rightarrow> py_error + real option" where
  "float_cell py_float row k =
     (case row_get row k of
        None \<Rightarrow> Inr None
      | Some cell \<Rightarrow>
          if cell = [] then Inr None
          else (case py_float cell of None \<Rightarrow> Inl ValueError | Some x \<Rightarrow> Inr (Some x)))"

text \<open>
  The \<^verbatim>\<open>Company\<close> object of a row. A company whose ticker is \<^verbatim>\<open>None\<close> has no primary
  key: the session raises when it writes it.
\<close>

definition company_of_row :: "csv_row \<Rightarrow> py_error + company" where
  "company_of_row row =
     (case row_get row ''ticker'' of
        None \<Rightarrow> Inl IntegrityError
      | Some t \<Rightarrow>
          Inr \<lparr>company.ticker = t, name = row_get row ''name'', sector = row_get row ''sector''\<rparr>)"

text \<open>
  The \<^verbatim>\<open>Financial\<close> object of a row: \<^verbatim>\<open>row['ticker']\<close> raises \<^verbatim>\<open>KeyError\<close> when the
  column is absent, then the nine numeric cells are converted in the order of the source.
\<close>

definition financial_of_row :: "(string \<Rightarrow> real option) \<Rightarrow> csv_row \<Rightarrow> py_error + financial" where
  "financial_of_row py_float row =
     (case row ''ticker'' of
        None \<Rightarrow> Inl KeyError
      | Some key \<Rightarrow>
          try_bind (float_cell py_float row ''ebitda'') (\<lambda>v1.
          try_bind (float_cell py_float row ''sales'') (\<lambda>v2.
          try_bind (float_cell py_float row ''net_profit'') (\<lambda>v3.
          try_bind (float_cell py_float row ''market_price'') (\<lambda>v4.
          try_bind (float_cell py_float row ''net_debt'') (\<lambda>v5.
          try_bind (float_cell py_float row ''assets'') (\<lambda>v6.
          try_bind (float_cell py_float row ''equity'') (\<lambda>v7.
          try_bind (float_cell py_float row ''cash_equivalents'') (\<lambda>v8.
          try_bind (float_cell py_float row ''liabilities'') (\<lambda>v9.
            case key of
              None \<Rightarrow> Inl IntegrityError
            | Some t \<Rightarrow>
                Inr \<lparr>financial.ticker = t, ebitda = v1, sales = v2, net_profit = v3,
                     market_price = v4, net_debt = v5, assets = v6, equity = v7,
                     cash_equivalents = v8, liabilities = v9\<rparr>))))))))))"

text \<open>The two loops over the rows of the files.\<close>

fun merge_companies :: "(db_step \<Rightarrow> bool) \<Rightarrow> csv_row list \<Rightarrow> store \<Rightarrow> py_error + store" where
  "merge_companies fails [] w = Inr w"
| "merge_companies fails (row # rows) w =
     try_bind (try_bind (company_of_row row) (\<lambda>c. session_merge_company fails c w))
       (merge_companies fails rows)"

fun merge_financials ::
  "(db_step \<Rightarrow> bool) \<Rightarrow> (string \<Rightarrow> real option) \<Rightarrow> csv_row list \<Rightarrow> store \<Rightarrow> py_error + store" where
  "merge_financials fails py_float [] w = Inr w"
| "merge_financials fails py_float (row # rows) w =
     try_bind (try_bind (financial_of_row py_float row) (\<lambda>f. session_merge_financial fails f w))
       (merge_financials fails py_float rows)"

text \<open>\<^verbatim>\<open>insert_data\<close>: the new store and the printed lines.\<close>

definition insert_data ::
  "(db_step \<Rightarrow> bool) \<Rightarrow> (string \<Rightarrow> real option) \<Rightarrow> data_files \<Rightarrow> bool \<Rightarrow> store
     \<Rightarrow> store \<times> message list" where
  "insert_data fails py_float files force_reload s =
     (if force_reload \<or> length (companies s) = 0 then
        (case (companies_csv files, financial_csv files) of
           (Some company_rows, Some financial_rows) \<Rightarrow>
             (case try_bind
                     (try_bind (merge_companies fails company_rows s)
                        (merge_financials fails py_float financial_rows))
                     (session_commit fails) of
                Inr s' \<Rightarrow> (s', [Data_inserted])
              | Inl e \<Rightarrow> (s, [Error_inserting_data e]))
         | _ \<Rightarrow> (s, [Csv_files_not_found]))
      else (s, []))"


text \<open>
  The tickers that occur in the company file and in the financial file, in file order.
\<close>

definition company_file_tickers :: "data_files \<Rightarrow> string list" where
  "company_file_tickers files =
     (case companies_csv files of
        None \<Rightarrow> []
      | Some rows \<Rightarrow> List.map_filter (\<lambda>row. row_get row ''ticker'') rows)"

definition financial_file_tickers :: "data_files \<Rightarrow> string list" where
  "financial_file_tickers files =
     (case financial_csv files of
        None \<Rightarrow> []
      | Some rows \<Rightarrow> List.map_filter (\<lambda>row. row_get row ''ticker'') rows)"

section \<open>Record operations: create, update, delete\<close>

text \<open>
  \<^verbatim>\<open>create_company\<close>. The three strings and the nine floats are what the user typed
  (\<^verbatim>\<open>get_float_input\<close> asks again until the line is a float); the suffix \<open>_in\<close>
  keeps their names apart from the columns.
\<close>

definition create_company ::
  "(db_step \<Rightarrow> bool) \<Rightarrow> string \<Rightarrow> string \<Rightarrow> string
     \<Rightarrow> real \<Rightarrow> real \<Rightarrow> real \<Rightarrow> real \<Rightarrow> real \<Rightarrow> real \<Rightarrow> real \<Rightarrow> real \<Rightarrow> real
     \<Rightarrow> store \<Rightarrow> store \<times> message list" where
  "create_company fails ticker_in name_in sector_in ebitda_in sales_in net_profit_in
       market_price_in net_debt_in assets_in equity_in cash_equivalents_in liabilities_in s =
     (let company = \<lparr>company.ticker = ticker_in, name = Some name_in, sector = Some sector_in\<rparr>;
          financial = \<lparr>financial.ticker = ticker_in, ebitda = Some ebitda_in, sales = Some sales_in,
             net_profit = Some net_profit_in, market_price = Some market_price_in,
             net_debt = Some net_debt_in, assets = Some assets_in, equity = Some equity_in,
             cash_equivalents = Some cash_equivalents_in, liabilities = Some liabilities_in\<rparr>
      in case try_bind
                (try_bind (session_merge_company fails company s)
                   (session_merge_financial fails financial))
                (session_commit fails) of
           Inr s' \<Rightarrow> (s', [Company_created])
         | Inl e \<Rightarrow> (s, [An_error_occurred e]))"

text \<open>\<^verbatim>\<open>update_company\<close>: the nine fields of the selected company's row are assigned.\<close>

definition update_company ::
  "(db_step \<Rightarrow> bool) \<Rightarrow> (string \<Rightarrow> string option \<Rightarrow> bool) \<Rightarrow> string \<Rightarrow> int option
     \<Rightarrow> real \<Rightarrow> real \<Rightarrow> real \<Rightarrow> real \<Rightarrow> real \<Rightarrow> real \<Rightarrow> real \<Rightarrow> real \<Rightarrow> real
     \<Rightarrow> store \<Rightarrow> store \<times> message list" where
  "update_company fails ilike company_name company_idx ebitda_in sales_in net_profit_in
       market_price_in net_debt_in assets_in equity_in cash_equivalents_in liabilities_in s =
     (case company_search ilike company_name company_idx (companies s) of
        (shown, None) \<Rightarrow> (s, shown)
      | (shown, Some selected_company) \<Rightarrow>
          (case financial_row (company.ticker selected_company) s of
             None \<Rightarrow> (s, shown @ [No_financial_data])
           | Some fin \<Rightarrow>
               (let updated = fin\<lparr>ebitda := Some ebitda_in, sales := Some sales_in,
                      net_profit := Some net_profit_in, market_price := Some market_price_in,
                      net_debt := Some net_debt_in, assets := Some assets_in, equity := Some equity_in,
                      cash_equivalents := Some cash_equivalents_in,
                      liabilities := Some liabilities_in\<rparr>
                in case session_commit fails
                          (s\<lparr>financials :=
                                map (\<lambda>f. if financial.ticker f = financial.ticker fin
                                          then updated else f) (financials s)\<rparr>) of
                     Inr s' \<Rightarrow> (s', shown @ [Company_updated])
                   | Inl e \<Rightarrow> (s, shown @ [An_error_occurred e]))))"

text \<open>\<^verbatim>\<open>delete_company\<close>.\<close>

definition delete_company ::
  "(db_step \<Rightarrow> bool) \<Rightarrow> (string \<Rightarrow> string option \<Rightarrow> bool) \<Rightarrow> string \<Rightarrow> int option
     \<Rightarrow> store \<Rightarrow> store \<times> message list" where
  "delete_company fails ilike company_name company_idx s =
     (case company_search ilike company_name company_idx (companies s) of
        (shown, None) \<Rightarrow> (s, shown)
      | (shown, Some selected_company) \<Rightarrow>
          (case try_bind (session_delete fails selected_company s) (session_commit fails) of
             Inr s' \<Rightarrow> (s', shown @ [Company_deleted])
           | Inl e \<Rightarrow> (s, shown @ [An_error_occurred e])))"

section \<open>Ranking\<close>

text \<open>
  One list comprehension of \<^verbatim>\<open>calculate_top_ten\<close>:
  \<^verbatim>\<open>[(row.ticker, row.num / row.den) for row in query if row.num and row.den]\<close>.
\<close>

definition comprehension ::
  "(financial \<Rightarrow> real option) \<Rightarrow> (financial \<Rightarrow> real option) \<Rightarrow> financial list
     \<Rightarrow> py_error + (string \<times> real) list" where
  "comprehension num den query =
     try_all (map (\<lambda>row. try_bind (truediv (num row) (den row))
                            (\<lambda>value. Inr (financial.ticker row, value)))
                (filter (\<lambda>row. truthy (num row) \<and> truthy (den row)) query))"

text \<open>
  \<^verbatim>\<open>list.sort(key=..., reverse=True)\<close>: the list is reversed, sorted by a stable sort in
  ascending order of the key, and reversed again.
\<close>

definition sort_reverse :: "('a \<Rightarrow> real) \<Rightarrow> 'a list \<Rightarrow> 'a list" where
  "sort_reverse key xs = rev (sort_key key (rev xs))"

text \<open>The branch on the metric: the header and the result of the comprehension.\<close>

definition metric_results ::
  "string \<Rightarrow> financial list \<Rightarrow> (string \<times> (py_error + (string \<times> real) list)) option" where
  "metric_results metric query =
     (if metric = ''ND/EBITDA'' then Some (''ND/EBITDA'', comprehension net_debt ebitda query)
      else if metric = ''ROE'' then Some (''ROE'', comprehension net_profit equity query)
      else if metric = ''ROA'' then Some (''ROA'', comprehension net_profit assets query)
      else None)"

text \<open>
  \<^verbatim>\<open>calculate_top_ten\<close>, as the lines it prints: the header, then one line for each of
  the first ten pairs of the sorted list.
\<close>

definition calculate_top_ten :: "string \<Rightarrow> store \<Rightarrow> message list" where
  "calculate_top_ten metric s =
     (case metric_results metric (financials s) of
        None \<Rightarrow> [Invalid_metric]
      | Some (header, Inl e) \<Rightarrow> [Error_calculating metric e]
      | Some (header, Inr results) \<Rightarrow>
          Top_header header
            # map (\<lambda>(ticker, value). Top_line ticker value) (take 10 (sort_reverse snd results)))"

text \<open>
  The pairs that a comprehension yields, written without exceptions: the rows whose two
  fields are both known and both different from zero, each with its quotient, in query
  order (lemma \<open>comprehension_rows\<close>).
\<close>

definition ranked_rows ::
  "(financial \<Rightarrow> real option) \<Rightarrow> (financial \<Rightarrow> real option) \<Rightarrow> financial list
     \<Rightarrow> (string \<times> real) list" where
  "ranked_rows num den query =
     map (\<lambda>row. (financial.ticker row, the (num row) / the (den row)))
       (filter (\<lambda>row. num row \<noteq> None \<and> num row \<noteq> Some 0 \<and> den row \<noteq> None \<and> den row \<noteq> Some 0)
          query)"

section \<open>Reachable stores\<close>

text \<open>
  One transition of the store for each operation that writes, and the stores that the
  program reaches from the empty database that \<^verbatim>\<open>create_all\<close> makes.
\<close>

inductive step :: "store \<Rightarrow> store \<Rightarrow> bool" where
  step_load: "step s (fst (insert_data fails py_float files force_reload s))"
| step_clear: "step s (fst (clear_database fails s))"
| step_create: "step s (fst (create_company fails t n sec v1 v2 v3 v4 v5 v6 v7 v8 v9 s))"
| step_update: "step s (fst (update_company fails ilike company_name company_idx
      v1 v2 v3 v4 v5 v6 v7 v8 v9 s))"
| step_delete: "step s (fst (delete_company fails ilike company_name company_idx s))"

inductive reachable :: "store \<Rightarrow> bool" where
  reachable_empty: "reachable \<lparr>companies = [], financials = []\<rparr>"
| reachable_step: "reachable s \<Longrightarrow> step s s' \<Longrightarrow> reachable s'"

section \<open>Example data\<close>

text \<open>
  The records of the repository's tests (\<^verbatim>\<open>test_insert_financial\<close> and
  \<^verbatim>\<open>test_clear_database\<close>): the second leaves six of the nine columns unset.
\<close>

definition aapl_company :: company where
  "aapl_company = \<lparr>company.ticker = ''AAPL'', name = Some ''Apple Inc.'',
     sector = Some ''Technology''\<rparr>"

definition aapl :: financial where
  "aapl = \<lparr>financial.ticker = ''AAPL'', ebitda = Some 1000000, sales = Some 2000000,
     net_profit = Some 500000, market_price = Some 150, net_debt = Some 100000,
     assets = Some 3000000, equity = Some 1500000, cash_equivalents = Some 500000,
     liabilities = Some 2000000\<rparr>"

definition goog_company :: company where
  "goog_company = \<lparr>company.ticker = ''GOOG'', name = Some ''Google LLC'',
     sector = Some ''Technology''\<rparr>"

definition goog :: financial where
  "goog = \<lparr>financial.ticker = ''GOOG'', ebitda = Some 123.45, sales = Some 678.9,
     net_profit = Some 50.5, market_price = None, net_debt = None, assets = None,
     equity = None, cash_equivalents = None, liabilities = None\<rparr>"

definition test_store :: store where
  "test_store = \<lparr>companies = [aapl_company, goog_company], financials = [aapl, goog]\<rparr>"

text \<open>
  Rows for a ranking by ROE: two rows with the same quotient, one row without equity and
  one row whose net profit is zero.
\<close>

definition blank :: "string \<Rightarrow> financial" where
  "blank t = \<lparr>financial.ticker = t, ebitda = None, sales = None, net_profit = None,
     market_price = None, net_debt = None, assets = None, equity = None,
     cash_equivalents = None, liabilities = None\<rparr>"


text \<open>
  The rows that the tests hand to \<^verbatim>\<open>insert_data\<close> (\<^verbatim>\<open>test_insert_data\<close> and
  \<^verbatim>\<open>test_insert_financial_data\<close>), the latter with an empty cell added, and a row with a
  cell that is not a number. \<open>sample_float\<close> stands for \<^verbatim>\<open>float\<close> on these cells.
\<close>

definition sample_float :: "string \<Rightarrow> real option" where
  "sample_float cell =
     (if cell = ''1000000.0'' then Some 1000000
      else if cell = ''2000000.0'' then Some 2000000
      else None)"

definition aapl_company_row :: csv_row where
  "aapl_company_row = [''ticker'' \<mapsto> Some ''AAPL'', ''name'' \<mapsto> Some ''Apple Inc.'',
     ''sector'' \<mapsto> Some ''Technology'']"

definition aapl_financial_row :: csv_row where
  "aapl_financial_row = [''ticker'' \<mapsto> Some ''AAPL'', ''ebitda'' \<mapsto> Some ''1000000.0'',
     ''sales'' \<mapsto> Some ''2000000.0'', ''net_profit'' \<mapsto> Some []]"


definition test_files :: data_files where
  "test_files = \<lparr>companies_csv = Some [aapl_company_row],
     financial_csv = Some [aapl_financial_row]\<rparr>"


text \<open>No database call raises; only the commit raises; every name matches.\<close>

definition no_fault :: "db_step \<Rightarrow> bool" where
  "no_fault call = False"

definition commit_fault :: "db_step \<Rightarrow> bool" where
  "commit_fault call = (call = Commit)"

definition any_name :: "string \<Rightarrow> string option \<Rightarrow> bool" where
  "any_name pattern column = True"

text \<open>
  Two stores that the program reaches: the store after the first load of the test's files
  into an empty database, and the store after \<^verbatim>\<open>create_company\<close> for a company without
  profit and for a company with a loss.
\<close>

definition loaded_store :: store where
  "loaded_store =
     fst (insert_data no_fault sample_float test_files False \<lparr>companies = [], financials = []\<rparr>)"

definition zero_profit_store :: store where
  "zero_profit_store =
     fst (create_company no_fault ''LOSS'' ''Loss Corp'' ''Retail'' 10 200 (- 20) 5 30 300 100 1 200
       (fst (create_company no_fault ''ZERO'' ''Zero Corp'' ''Retail'' 10 200 0 5 30 300 100 1 200
          \<lparr>companies = [], financials = []\<rparr>)))"

section \<open>Properties of the ratio engine\<close>

lemma ratio_unknown_denominator:
  "den = None \<or> den = Some 0 \<Longrightarrow> ratio num den = Inr None"
  by (auto simp: ratio_def truthy_def)

lemma ratio_known:
  "d \<noteq> 0 \<Longrightarrow> ratio (Some n) (Some d) = Inr (Some (n / d))"
  by (simp add: ratio_def truthy_def try_bind_def)

lemma ratio_unknown_numerator:
  "d \<noteq> 0 \<Longrightarrow> ratio None (Some d) = Inl TypeError"
  by (simp add: ratio_def truthy_def try_bind_def)

lemma ratio_error: "ratio num den = Inl e \<Longrightarrow> e = TypeError"
  by (cases num; cases den) (auto simp: ratio_def truthy_def try_bind_def split: if_splits)

lemma ratio_of_spec: "ratio_of r fin = ratio (spec_numerator r fin) (spec_denominator r fin)"
  by (cases r) simp_all

lemma try_all_error: "try_all rs = Inl e \<Longrightarrow> Inl e \<in> set rs"
  by (induction rs arbitrary: e) (auto split: sum.splits)

lemma try_all_fails: "Inl e \<in> set rs \<Longrightarrow> \<exists>e'. try_all rs = Inl e'"
  by (induction rs) (auto split: sum.splits)

lemma calculate_error:
  "try_all (map (\<lambda>r. ratio_of r fin) all_ratios) = Inl e \<Longrightarrow> e = TypeError"
proof -
  assume "try_all (map (\<lambda>r. ratio_of r fin) all_ratios) = Inl e"
  then have "Inl e \<in> set (map (\<lambda>r. ratio_of r fin) all_ratios)"
    by (rule try_all_error)
  then obtain r where "ratio_of r fin = Inl e"
    by auto
  then show "e = TypeError"
    by (simp add: ratio_of_spec ratio_error)
qed

lemma all_ratios_complete: "r \<in> set all_ratios"
  by (cases r) (simp_all add: all_ratios_def)

lemma company_search_messages:
  "company_search ilike company_name company_idx table = (shown, sel) \<Longrightarrow>
   Division_by_zero_message \<notin> set shown"
  by (auto simp: company_search_def Let_def split: if_splits option.splits)

lemma company_search_no_ratio:
  "company_search ilike company_name company_idx table = (shown, sel) \<Longrightarrow>
   Ratio_line l v \<notin> set shown \<and> Company_header t n \<notin> set shown"
  by (auto simp: company_search_def Let_def split: if_splits option.splits)

lemma read_company_selected:
  assumes "company_search ilike company_name company_idx (companies s) = (shown, Some c)"
      and "financial_row (company.ticker c) s = Some fin"
      and "try_all (map (\<lambda>r. ratio_of r fin) all_ratios) = Inl TypeError"
  shows "read_company ilike company_name company_idx s = shown @ [An_error_occurred TypeError]"
  using assms by (simp add: read_company_def)

text \<open>
  Each of the seven expressions on its own: when the denominator field is unknown or zero
  the expression is unknown; when the denominator is known and not zero and the numerator
  is known, it is numerator / denominator; none raises a division error, and
  \<^verbatim>\<open>read_company\<close> never prints the division-by-zero line.
\<close>

lemma ratio_of_denominator_guard:
  "(spec_denominator r fin = None \<or> spec_denominator r fin = Some 0
      \<longrightarrow> ratio_of r fin = Inr None)
   \<and> (\<forall>n d. spec_numerator r fin = Some n \<and> spec_denominator r fin = Some d \<and> d \<noteq> 0
      \<longrightarrow> ratio_of r fin = Inr (Some (n / d)))
   \<and> ratio_of r fin \<noteq> Inl ZeroDivisionError
   \<and> Division_by_zero_message \<notin> set (read_company ilike company_name company_idx s)"
proof (intro conjI allI impI)
  assume "spec_denominator r fin = None \<or> spec_denominator r fin = Some 0"
  then show "ratio_of r fin = Inr None"
    by (simp add: ratio_of_spec ratio_unknown_denominator)
next
  fix n d
  assume "spec_numerator r fin = Some n \<and> spec_denominator r fin = Some d \<and> d \<noteq> 0"
  then show "ratio_of r fin = Inr (Some (n / d))"
    by (simp add: ratio_of_spec ratio_known)
next
  show "ratio_of r fin \<noteq> Inl ZeroDivisionError"
    using ratio_error [of "spec_numerator r fin" "spec_denominator r fin" ZeroDivisionError]
    by (auto simp: ratio_of_spec)
next
  obtain shown sel
    where cs: "company_search ilike company_name company_idx (companies s) = (shown, sel)"
    by (cases "company_search ilike company_name company_idx (companies s)")
  have shown: "Division_by_zero_message \<notin> set shown"
    using cs by (rule company_search_messages)
  show "Division_by_zero_message \<notin> set (read_company ilike company_name company_idx s)"
  proof (cases sel)
    case None
    with cs shown show ?thesis by (simp add: read_company_def)
  next
    case (Some c)
    show ?thesis
    proof (cases "financial_row (company.ticker c) s")
      case None
      with cs shown Some show ?thesis by (simp add: read_company_def)
    next
      case fin: (Some f)
      show ?thesis
      proof (cases "try_all (map (\<lambda>r. ratio_of r f) all_ratios)")
        case (Inl e)
        then have "e = TypeError" by (rule calculate_error)
        with Inl cs shown Some fin show ?thesis by (simp add: read_company_def)
      next
        case (Inr vs)
        with cs shown Some fin show ?thesis by (auto simp: read_company_def)
      qed
    qed
  qed
qed

lemma try_all_map_Inr: "\<forall>x \<in> set xs. f x = Inr (g x) \<Longrightarrow> try_all (map f xs) = Inr (map g xs)"
  by (induction xs) simp_all

text \<open>
  Where the claim holds: when every ratio of the row has its denominator unknown or zero or
  its numerator known, \<^verbatim>\<open>read_company\<close> prints the header and the seven ratios, each
  unknown for an unknown or zero denominator and numerator / denominator otherwise.
\<close>

lemma read_company_known_numerators:
  assumes search: "company_search ilike company_name company_idx (companies s) = (shown, Some c)"
      and fin: "financial_row (company.ticker c) s = Some fin"
      and known: "\<forall>r. spec_denominator r fin = None \<or> spec_denominator r fin = Some 0
                    \<or> spec_numerator r fin \<noteq> None"
  shows "read_company ilike company_name company_idx s
     = shown @ Company_header (company.ticker c) (name c)
         # map (\<lambda>r. Ratio_line (label r)
                  (if spec_denominator r fin = None \<or> spec_denominator r fin = Some 0 then None
                   else Some (the (spec_numerator r fin) / the (spec_denominator r fin))))
             all_ratios"
proof -
  let ?g = "\<lambda>r. if spec_denominator r fin = None \<or> spec_denominator r fin = Some 0 then None
                   else Some (the (spec_numerator r fin) / the (spec_denominator r fin))"
  have each: "ratio_of r fin = Inr (?g r)" for r
  proof (cases "spec_denominator r fin = None \<or> spec_denominator r fin = Some 0")
    case True
    then show ?thesis
      by (simp add: ratio_of_spec ratio_unknown_denominator)
  next
    case False
    then obtain d where d: "spec_denominator r fin = Some d" "d \<noteq> 0"
      by (cases "spec_denominator r fin") auto
    from known have "spec_denominator r fin = None \<or> spec_denominator r fin = Some 0
        \<or> spec_numerator r fin \<noteq> None" ..
    with False have "spec_numerator r fin \<noteq> None"
      by blast
    then obtain n where n: "spec_numerator r fin = Some n"
      by (cases "spec_numerator r fin") simp_all
    from d n show ?thesis
      by (simp add: ratio_of_spec ratio_known)
  qed
  then have "try_all (map (\<lambda>r. ratio_of r fin) all_ratios) = Inr (map ?g all_ratios)"
    by (intro try_all_map_Inr) simp
  with search fin show ?thesis
    by (simp add: read_company_def all_ratios_def)
qed

lemma loaded_store_rows:
  "loaded_store =
     \<lparr>companies = [\<lparr>company.ticker = ''AAPL'', name = Some ''Apple Inc.'',
          sector = Some ''Technology''\<rparr>],
      financials = [(blank ''AAPL'')\<lparr>ebitda := Some 1000000, sales := Some 2000000\<rparr>]\<rparr>"
  by (simp add: loaded_store_def insert_data_def test_files_def no_fault_def sample_float_def
      aapl_company_row_def aapl_financial_row_def company_of_row_def financial_of_row_def
      float_cell_def row_get_def session_merge_company_def session_merge_financial_def
      session_commit_def attempt_def merge_row_def blank_def try_bind_def)

text \<open>
  Claim C1 does not hold of \<^verbatim>\<open>read_company\<close>. The first load of the test's files stores
  for AAPL a row with sales known and neither net profit nor market price. Its P/E, with an
  unknown denominator, should be shown as unknown and is so as an expression; but P/S, whose
  denominator is known and not zero, is \<^verbatim>\<open>None / 2000000.0\<close>, a \<^verbatim>\<open>TypeError\<close> and not
  a quotient, and \<^verbatim>\<open>read_company\<close> prints the error line and no ratio at all. The same
  happens for the record of \<^verbatim>\<open>test_clear_database\<close>, whose P/B has an unknown denominator
  and is never shown. \<^verbatim>\<open>calculate_top_ten\<close> tests the numerator as well as the
  denominator; \<^verbatim>\<open>read_company\<close> tests the denominator only.
\<close>

theorem read_company_type_error:
  "spec_numerator PS (the (financial_row ''AAPL'' loaded_store)) = None
   \<and> spec_denominator PS (the (financial_row ''AAPL'' loaded_store)) = Some 2000000
   \<and> spec_denominator PE (the (financial_row ''AAPL'' loaded_store)) = None
   \<and> ratio_of PE (the (financial_row ''AAPL'' loaded_store)) = Inr None
   \<and> ratio_of PS (the (financial_row ''AAPL'' loaded_store)) = Inl TypeError
   \<and> read_company any_name ''Apple'' (Some 0) loaded_store
       = [Company_choice 0 (Some ''Apple Inc.''), An_error_occurred TypeError]
   \<and> spec_numerator PE goog = None \<and> spec_denominator PE goog = Some 50.5
   \<and> spec_denominator PB goog = None
   \<and> ratio_of PE goog = Inl TypeError
   \<and> read_company any_name ''Goo'' (Some 1) test_store
       = [Company_choice 0 (Some ''Apple Inc.''), Company_choice 1 (Some ''Google LLC''),
          An_error_occurred TypeError]"
  by (simp add: loaded_store_rows financial_row_def blank_def ratio_def truthy_def try_bind_def
      read_company_def company_search_def any_name_def Let_def all_ratios_def upt_rec
      test_store_def aapl_company_def goog_company_def aapl_def goog_def)

text \<open>
  Claim C9. When the selected company has a financial row in which the numerator field of
  some ratio is unknown while its denominator is known and not zero, \<^verbatim>\<open>read_company\<close>
  prints, after the lines of the search, the error line only: the output has no header line
  and no ratio line.
\<close>

theorem read_company_unknown_numerator:
  assumes "company_search ilike company_name company_idx (companies s) = (shown, Some c)"
      and "financial_row (company.ticker c) s = Some fin"
      and "spec_numerator r fin = None" and "spec_denominator r fin = Some d" and "d \<noteq> 0"
  shows "read_company ilike company_name company_idx s = shown @ [An_error_occurred TypeError]
      \<and> Ratio_line l v \<notin> set (read_company ilike company_name company_idx s)
      \<and> Company_header t n \<notin> set (read_company ilike company_name company_idx s)"
proof -
  have "ratio_of r fin = Inl TypeError"
    using assms(3-5) by (simp add: ratio_of_spec ratio_unknown_numerator)
  then have "Inl TypeError \<in> set (map (\<lambda>r. ratio_of r fin) all_ratios)"
    using all_ratios_complete [of r] by force
  then have "\<exists>e. try_all (map (\<lambda>r. ratio_of r fin) all_ratios) = Inl e"
    by (rule try_all_fails)
  then obtain e where e: "try_all (map (\<lambda>r. ratio_of r fin) all_ratios) = Inl e" ..
  then have "e = TypeError" by (rule calculate_error)
  with e assms(1,2)
  have out: "read_company ilike company_name company_idx s = shown @ [An_error_occurred TypeError]"
    by (simp add: read_company_selected)
  have "Ratio_line l v \<notin> set shown \<and> Company_header t n \<notin> set shown"
    using assms(1) by (rule company_search_no_ratio)
  with out show ?thesis by simp
qed

theorem read_company_unknown_numerator_witness:
  "company_search any_name ''Goo'' (Some 1) (companies test_store)
     = ([Company_choice 0 (Some ''Apple Inc.''), Company_choice 1 (Some ''Google LLC'')],
        Some goog_company)
   \<and> financial_row (company.ticker goog_company) test_store = Some goog
   \<and> spec_numerator PE goog = None \<and> spec_denominator PE goog = Some 50.5
   \<and> (50.5 :: real) \<noteq> 0
   \<and> read_company any_name ''Goo'' (Some 1) test_store
     = [Company_choice 0 (Some ''Apple Inc.''), Company_choice 1 (Some ''Google LLC''),
        An_error_occurred TypeError]"
proof -
  have h1: "company_search any_name ''Goo'' (Some 1) (companies test_store)
     = ([Company_choice 0 (Some ''Apple Inc.''), Company_choice 1 (Some ''Google LLC'')],
        Some goog_company)"
    by (simp add: company_search_def test_store_def any_name_def Let_def aapl_company_def
        goog_company_def upt_rec)
  have h2: "financial_row (company.ticker goog_company) test_store = Some goog"
    by (simp add: financial_row_def test_store_def goog_company_def goog_def aapl_def)
  have h3: "spec_numerator PE goog = None"
    by (simp add: goog_def)
  have h4: "spec_denominator PE goog = Some 50.5"
    by (simp add: goog_def)
  have h5: "(50.5 :: real) \<noteq> 0"
    by simp
  show ?thesis
    using h1 h2 h3 h4 h5 read_company_unknown_numerator [OF h1 h2 h3 h4 h5] by simp
qed

section \<open>Properties of the ranking\<close>

lemma truthy_iff: "truthy x \<longleftrightarrow> x \<noteq> None \<and> x \<noteq> Some 0"
  by (cases x) (simp_all add: truthy_def)

lemma comprehension_rows: "comprehension num den query = Inr (ranked_rows num den query)"
proof (induction query)
  case Nil
  show ?case by (simp add: comprehension_def ranked_rows_def)
next
  case (Cons row query)
  show ?case
  proof (cases "truthy (num row) \<and> truthy (den row)")
    case True
    then obtain n d where "num row = Some n" "den row = Some d" "n \<noteq> 0" "d \<noteq> 0"
      by (cases "num row"; cases "den row") (auto simp: truthy_def)
    with Cons show ?thesis
      by (simp add: comprehension_def ranked_rows_def truthy_def try_bind_def)
  next
    case False
    with Cons show ?thesis
      by (auto simp: comprehension_def ranked_rows_def truthy_iff)
  qed
qed

text \<open>
  What the code computes: for each of the three metrics the comprehension yields, in query
  order, the quotient of the rows whose two fields are both true in a Python condition, that
  is both known and both different from zero.
\<close>

lemma metric_results_rows:
  "metric_results ''ND/EBITDA'' query
     = Some (''ND/EBITDA'', Inr (ranked_rows net_debt ebitda query))
   \<and> metric_results ''ROE'' query = Some (''ROE'', Inr (ranked_rows net_profit equity query))
   \<and> metric_results ''ROA'' query = Some (''ROA'', Inr (ranked_rows net_profit assets query))
   \<and> ((t, v) \<in> set (ranked_rows num den query) \<longleftrightarrow>
        (\<exists>row \<in> set query. \<exists>n d. financial.ticker row = t \<and> num row = Some n
            \<and> den row = Some d \<and> n \<noteq> 0 \<and> d \<noteq> 0 \<and> v = n / d))"
proof -
  have "(t, v) \<in> set (ranked_rows num den query) \<longleftrightarrow>
        (\<exists>row \<in> set query. \<exists>n d. financial.ticker row = t \<and> num row = Some n
            \<and> den row = Some d \<and> n \<noteq> 0 \<and> d \<noteq> 0 \<and> v = n / d)"
    by (auto simp: ranked_rows_def image_iff)
  then show ?thesis
    by (simp add: metric_results_def comprehension_rows)
qed

lemma zero_profit_store_rows:
  "zero_profit_store =
     \<lparr>companies =
        [\<lparr>company.ticker = ''ZERO'', name = Some ''Zero Corp'', sector = Some ''Retail''\<rparr>,
         \<lparr>company.ticker = ''LOSS'', name = Some ''Loss Corp'', sector = Some ''Retail''\<rparr>],
      financials =
        [\<lparr>financial.ticker = ''ZERO'', ebitda = Some 10, sales = Some 200, net_profit = Some 0,
          market_price = Some 5, net_debt = Some 30, assets = Some 300, equity = Some 100,
          cash_equivalents = Some 1, liabilities = Some 200\<rparr>,
         \<lparr>financial.ticker = ''LOSS'', ebitda = Some 10, sales = Some 200,
          net_profit = Some (- 20), market_price = Some 5, net_debt = Some 30,
          assets = Some 300, equity = Some 100, cash_equivalents = Some 1,
          liabilities = Some 200\<rparr>]\<rparr>"
  by (simp add: zero_profit_store_def create_company_def Let_def session_merge_company_def
      session_merge_financial_def session_commit_def attempt_def merge_row_def no_fault_def
      try_bind_def)

text \<open>
  Claim C2 does not hold of \<^verbatim>\<open>calculate_top_ten\<close>. After \<^verbatim>\<open>create_company\<close> for a
  company with net profit 0 and one with net profit -20, both with equity 100, the rankings
  by ROE and by ROA list the company with the loss and leave out the one with quotient 0,
  although its two fields are known and its denominator is not zero: the condition
  \<^verbatim>\<open>row.net_profit and row.equity\<close> takes the float 0.0 for false. \<^verbatim>\<open>read_company\<close>
  shows ROE = 0 and ROA = 0 for the same company.
\<close>

theorem calculate_top_ten_drops_zero:
  "financial_row ''ZERO'' zero_profit_store
     = Some \<lparr>financial.ticker = ''ZERO'', ebitda = Some 10, sales = Some 200,
         net_profit = Some 0, market_price = Some 5, net_debt = Some 30, assets = Some 300,
         equity = Some 100, cash_equivalents = Some 1, liabilities = Some 200\<rparr>
   \<and> calculate_top_ten ''ROE'' zero_profit_store
       = [Top_header ''ROE'', Top_line ''LOSS'' (- (1 / 5))]
   \<and> calculate_top_ten ''ROA'' zero_profit_store
       = [Top_header ''ROA'', Top_line ''LOSS'' (- (1 / 15))]
   \<and> read_company any_name ''Zero'' (Some 0) zero_profit_store
       = [Company_choice 0 (Some ''Zero Corp''), Company_choice 1 (Some ''Loss Corp''),
          Company_header ''ZERO'' (Some ''Zero Corp''),
          Ratio_line ''P/E'' None, Ratio_line ''P/S'' (Some (1 / 40)),
          Ratio_line ''P/B'' (Some (1 / 60)), Ratio_line ''ND/EBITDA'' (Some 3),
          Ratio_line ''ROE'' (Some 0), Ratio_line ''ROA'' (Some 0),
          Ratio_line ''L/A'' (Some (2 / 3))]"
  by (simp add: zero_profit_store_rows financial_row_def calculate_top_ten_def
      metric_results_def comprehension_def truthy_def try_bind_def sort_reverse_def
      read_company_def company_search_def any_name_def Let_def all_ratios_def upt_rec ratio_def)









section \<open>Properties of the merge\<close>

lemma overwrite_keys: "map key (map (\<lambda>x. if key x = key r then r else x) table) = map key table"
  by (induction table) simp_all

lemma overwrite_filter_other:
  "\<not> Q (key r) \<Longrightarrow>
   filter (\<lambda>x. Q (key x)) (map (\<lambda>x. if key x = key r then r else x) table)
     = filter (\<lambda>x. Q (key x)) table"
  by (induction table) simp_all







lemma list_ex_key: "list_ex (\<lambda>x. key x = k) table \<longleftrightarrow> k \<in> set (map key table)"
  by (induction table) auto

lemma merge_row_keys:
  "map key (merge_row key r table)
     = (if key r \<in> set (map key table) then map key table else map key table @ [key r])"
  by (simp add: merge_row_def overwrite_keys list_ex_key)

lemma merge_row_distinct:
  "distinct (map key table) \<Longrightarrow> distinct (map key (merge_row key r table))"
  by (simp add: merge_row_keys)

lemma merge_row_filter_other:
  "\<not> Q (key r) \<Longrightarrow>
   filter (\<lambda>x. Q (key x)) (merge_row key r table) = filter (\<lambda>x. Q (key x)) table"
  by (simp add: merge_row_def overwrite_filter_other)



section \<open>Properties of the sequencing\<close>

lemma try_bind_Inr: "try_bind r k = Inr v \<longleftrightarrow> (\<exists>u. r = Inr u \<and> k u = Inr v)"
  by (cases r) (simp_all add: try_bind_def)

lemma try_bind_Inl [simp]: "try_bind (Inl e) k = Inl e"
  by (simp add: try_bind_def)

lemma try_bind_Inr_left [simp]: "try_bind (Inr u) k = k u"
  by (simp add: try_bind_def)

lemma attempt_Inr: "attempt fails call v = Inr w \<longleftrightarrow> \<not> fails call \<and> w = v"
  by (auto simp: attempt_def)


section \<open>Properties of the rows of a file\<close>

lemma company_of_row_ticker:
  "company_of_row row = Inr c \<Longrightarrow> row_get row ''ticker'' = Some (company.ticker c)"
  by (auto simp: company_of_row_def split: option.splits)

lemma financial_of_row_Inr:
  "financial_of_row py_float row = Inr f \<Longrightarrow>
     \<exists>t v1 v2 v3 v4 v5 v6 v7 v8 v9. row ''ticker'' = Some (Some t)
        \<and> float_cell py_float row ''ebitda'' = Inr v1
        \<and> float_cell py_float row ''sales'' = Inr v2
        \<and> float_cell py_float row ''net_profit'' = Inr v3
        \<and> float_cell py_float row ''market_price'' = Inr v4
        \<and> float_cell py_float row ''net_debt'' = Inr v5
        \<and> float_cell py_float row ''assets'' = Inr v6
        \<and> float_cell py_float row ''equity'' = Inr v7
        \<and> float_cell py_float row ''cash_equivalents'' = Inr v8
        \<and> float_cell py_float row ''liabilities'' = Inr v9
        \<and> f = \<lparr>financial.ticker = t, ebitda = v1, sales = v2, net_profit = v3,
                market_price = v4, net_debt = v5, assets = v6, equity = v7,
                cash_equivalents = v8, liabilities = v9\<rparr>"
proof (cases "row ''ticker''")
  case None
  assume "financial_of_row py_float row = Inr f"
  with None show ?thesis by (simp add: financial_of_row_def)
next
  case outer: (Some key)
  assume ok: "financial_of_row py_float row = Inr f"
  show ?thesis
  proof (cases key)
    case None
    with outer ok show ?thesis by (simp add: financial_of_row_def try_bind_Inr)
  next
    case (Some t)
    with outer ok have "\<exists>v1 v2 v3 v4 v5 v6 v7 v8 v9.
          float_cell py_float row ''ebitda'' = Inr v1
        \<and> float_cell py_float row ''sales'' = Inr v2
        \<and> float_cell py_float row ''net_profit'' = Inr v3
        \<and> float_cell py_float row ''market_price'' = Inr v4
        \<and> float_cell py_float row ''net_debt'' = Inr v5
        \<and> float_cell py_float row ''assets'' = Inr v6
        \<and> float_cell py_float row ''equity'' = Inr v7
        \<and> float_cell py_float row ''cash_equivalents'' = Inr v8
        \<and> float_cell py_float row ''liabilities'' = Inr v9
        \<and> f = \<lparr>financial.ticker = t, ebitda = v1, sales = v2, net_profit = v3,
                market_price = v4, net_debt = v5, assets = v6, equity = v7,
                cash_equivalents = v8, liabilities = v9\<rparr>"
      by (simp add: financial_of_row_def try_bind_Inr) blast
    with outer Some show ?thesis by simp
  qed
qed

lemma financial_of_row_ticker:
  assumes "financial_of_row py_float row = Inr f"
  shows "row ''ticker'' = Some (Some (financial.ticker f))"
proof -
  from financial_of_row_Inr [OF assms] obtain t v1 v2 v3 v4 v5 v6 v7 v8 v9 where
    "row ''ticker'' = Some (Some t)"
    "f = \<lparr>financial.ticker = t, ebitda = v1, sales = v2, net_profit = v3,
           market_price = v4, net_debt = v5, assets = v6, equity = v7,
           cash_equivalents = v8, liabilities = v9\<rparr>"
    by blast
  then show ?thesis by simp
qed




lemma float_cell_parsed:
  "row_get row k = Some cell \<Longrightarrow> cell \<noteq> [] \<Longrightarrow> py_float cell = Some x \<Longrightarrow>
   float_cell py_float row k = Inr (Some x)"
  by (simp add: float_cell_def)

section \<open>Properties of the two loops\<close>

lemma session_merge_company_Inr:
  "session_merge_company fails c w = Inr w' \<longleftrightarrow>
     \<not> fails Merge_company \<and> w' = w\<lparr>companies := merge_row company.ticker c (companies w)\<rparr>"
  by (simp add: session_merge_company_def attempt_Inr)

lemma session_merge_financial_Inr:
  "session_merge_financial fails f w = Inr w' \<longleftrightarrow>
     \<not> fails Merge_financial \<and> w' = w\<lparr>financials := merge_row financial.ticker f (financials w)\<rparr>"
  by (simp add: session_merge_financial_def attempt_Inr)

lemma merge_companies_Cons:
  "merge_companies fails (row # rows) w = Inr w' \<longleftrightarrow>
     (\<exists>c. company_of_row row = Inr c \<and> \<not> fails Merge_company
        \<and> merge_companies fails rows (w\<lparr>companies := merge_row company.ticker c (companies w)\<rparr>)
            = Inr w')"
  by (auto simp: try_bind_Inr session_merge_company_Inr)

lemma merge_financials_Cons:
  "merge_financials fails py_float (row # rows) w = Inr w' \<longleftrightarrow>
     (\<exists>f. financial_of_row py_float row = Inr f \<and> \<not> fails Merge_financial
        \<and> merge_financials fails py_float rows
              (w\<lparr>financials := merge_row financial.ticker f (financials w)\<rparr>) = Inr w')"
  by (auto simp: try_bind_Inr session_merge_financial_Inr)

lemma merge_companies_frame:
  "merge_companies fails rows w = Inr w' \<Longrightarrow> financials w' = financials w"
proof (induction rows arbitrary: w)
  case Nil
  then show ?case by simp
next
  case (Cons row rows)
  from Cons.prems obtain c where
    "merge_companies fails rows (w\<lparr>companies := merge_row company.ticker c (companies w)\<rparr>) = Inr w'"
    unfolding merge_companies_Cons by blast
  then have "financials w' = financials (w\<lparr>companies := merge_row company.ticker c (companies w)\<rparr>)"
    by (rule Cons.IH)
  then show ?case by simp
qed

lemma merge_financials_frame:
  "merge_financials fails py_float rows w = Inr w' \<Longrightarrow> companies w' = companies w"
proof (induction rows arbitrary: w)
  case Nil
  then show ?case by simp
next
  case (Cons row rows)
  from Cons.prems obtain f where
    "merge_financials fails py_float rows
        (w\<lparr>financials := merge_row financial.ticker f (financials w)\<rparr>) = Inr w'"
    unfolding merge_financials_Cons by blast
  then have "companies w' = companies (w\<lparr>financials := merge_row financial.ticker f (financials w)\<rparr>)"
    by (rule Cons.IH)
  then show ?case by simp
qed

lemma merge_companies_distinct:
  "merge_companies fails rows w = Inr w' \<Longrightarrow> distinct (map company.ticker (companies w)) \<Longrightarrow>
   distinct (map company.ticker (companies w'))"
proof (induction rows arbitrary: w)
  case Nil
  then show ?case by simp
next
  case (Cons row rows)
  from Cons.prems(1) obtain c where
    rest: "merge_companies fails rows (w\<lparr>companies := merge_row company.ticker c (companies w)\<rparr>) = Inr w'"
    unfolding merge_companies_Cons by blast
  have "distinct (map company.ticker (companies (w\<lparr>companies := merge_row company.ticker c (companies w)\<rparr>)))"
    using Cons.prems(2) by (simp add: merge_row_distinct)
  with rest show ?case by (rule Cons.IH)
qed

lemma merge_financials_distinct:
  "merge_financials fails py_float rows w = Inr w' \<Longrightarrow>
   distinct (map financial.ticker (financials w)) \<Longrightarrow>
   distinct (map financial.ticker (financials w'))"
proof (induction rows arbitrary: w)
  case Nil
  then show ?case by simp
next
  case (Cons row rows)
  from Cons.prems(1) obtain f where
    rest: "merge_financials fails py_float rows
        (w\<lparr>financials := merge_row financial.ticker f (financials w)\<rparr>) = Inr w'"
    unfolding merge_financials_Cons by blast
  have "distinct (map financial.ticker
          (financials (w\<lparr>financials := merge_row financial.ticker f (financials w)\<rparr>)))"
    using Cons.prems(2) by (simp add: merge_row_distinct)
  with rest show ?case by (rule Cons.IH)
qed

lemma merge_companies_other:
  "merge_companies fails rows w = Inr w' \<Longrightarrow>
   \<forall>row \<in> set rows. \<forall>t. row_get row ''ticker'' = Some t \<longrightarrow> \<not> Q t \<Longrightarrow>
   filter (\<lambda>c. Q (company.ticker c)) (companies w') = filter (\<lambda>c. Q (company.ticker c)) (companies w)"
proof (induction rows arbitrary: w)
  case Nil
  then show ?case by simp
next
  case (Cons row rows)
  from Cons.prems(1) obtain c where
    c: "company_of_row row = Inr c" and
    rest: "merge_companies fails rows (w\<lparr>companies := merge_row company.ticker c (companies w)\<rparr>) = Inr w'"
    unfolding merge_companies_Cons by blast
  from c have "row_get row ''ticker'' = Some (company.ticker c)"
    by (rule company_of_row_ticker)
  with Cons.prems(2) have nq: "\<not> Q (company.ticker c)" by simp
  from Cons.prems(2) have "\<forall>row \<in> set rows. \<forall>t. row_get row ''ticker'' = Some t \<longrightarrow> \<not> Q t"
    by simp
  with rest have "filter (\<lambda>c. Q (company.ticker c)) (companies w')
      = filter (\<lambda>c. Q (company.ticker c))
          (companies (w\<lparr>companies := merge_row company.ticker c (companies w)\<rparr>))"
    by (rule Cons.IH)
  with nq show ?case by (simp add: merge_row_filter_other)
qed

lemma merge_financials_other:
  "merge_financials fails py_float rows w = Inr w' \<Longrightarrow>
   \<forall>row \<in> set rows. \<forall>t. row ''ticker'' = Some (Some t) \<longrightarrow> \<not> Q t \<Longrightarrow>
   filter (\<lambda>f. Q (financial.ticker f)) (financials w')
     = filter (\<lambda>f. Q (financial.ticker f)) (financials w)"
proof (induction rows arbitrary: w)
  case Nil
  then show ?case by simp
next
  case (Cons row rows)
  from Cons.prems(1) obtain f where
    f: "financial_of_row py_float row = Inr f" and
    rest: "merge_financials fails py_float rows
        (w\<lparr>financials := merge_row financial.ticker f (financials w)\<rparr>) = Inr w'"
    unfolding merge_financials_Cons by blast
  from f have "row ''ticker'' = Some (Some (financial.ticker f))"
    by (rule financial_of_row_ticker)
  with Cons.prems(2) have nq: "\<not> Q (financial.ticker f)" by simp
  from Cons.prems(2) have "\<forall>row \<in> set rows. \<forall>t. row ''ticker'' = Some (Some t) \<longrightarrow> \<not> Q t"
    by simp
  with rest have "filter (\<lambda>f. Q (financial.ticker f)) (financials w')
      = filter (\<lambda>f. Q (financial.ticker f))
          (financials (w\<lparr>financials := merge_row financial.ticker f (financials w)\<rparr>))"
    by (rule Cons.IH)
  with nq show ?case by (simp add: merge_row_filter_other)
qed




section \<open>Properties of the storage gateway and the bulk loader\<close>

text \<open>
  Claim C5. On a store with at least one company row, \<^verbatim>\<open>insert_data\<close> without
  \<^verbatim>\<open>force_reload\<close> leaves both tables as they are and prints nothing, whatever the files
  hold and whichever database call would raise.
\<close>

theorem insert_data_not_forced:
  assumes "companies s \<noteq> []"
  shows "insert_data fails py_float files False s = (s, [])"
  using assms by (simp add: insert_data_def)

theorem insert_data_not_forced_witness:
  "companies test_store \<noteq> []
   \<and> insert_data no_fault sample_float test_files False test_store = (test_store, [])"
proof -
  have h: "companies test_store \<noteq> []"
    by (simp add: test_store_def)
  show ?thesis
    using h insert_data_not_forced [OF h, of no_fault sample_float test_files] by simp
qed

text \<open>
  Claim C6. \<^verbatim>\<open>clear_database\<close> deletes the financial rows, then the company rows, and
  commits: when no call raises both tables are empty afterwards (count 0 each); when the
  first delete, the second delete or the commit raises, the session is rolled back, the
  store is the one before the call and the failure is printed.
\<close>

theorem clear_database_empties:
  "(\<not> fails Delete_financial_rows \<and> \<not> fails Delete_company_rows \<and> \<not> fails Commit \<longrightarrow>
      clear_database fails s = (\<lparr>companies = [], financials = []\<rparr>, [])
      \<and> length (companies (fst (clear_database fails s))) = 0
      \<and> length (financials (fst (clear_database fails s))) = 0)
   \<and> (fails Delete_financial_rows \<or> fails Delete_company_rows \<or> fails Commit \<longrightarrow>
      clear_database fails s = (s, [Error_clearing OperationalError]))"
  by (cases s)
     (simp add: clear_database_def query_financial_delete_def query_company_delete_def
        session_commit_def attempt_def)

theorem clear_database_empties_witness:
  "\<not> no_fault Delete_financial_rows \<and> \<not> no_fault Delete_company_rows \<and> \<not> no_fault Commit
   \<and> clear_database no_fault test_store = (\<lparr>companies = [], financials = []\<rparr>, [])
   \<and> commit_fault Commit
   \<and> clear_database commit_fault test_store = (test_store, [Error_clearing OperationalError])"
  using clear_database_empties [of no_fault test_store]
    clear_database_empties [of commit_fault test_store]
  by (simp add: no_fault_def commit_fault_def)

lemma insert_data_result:
  assumes "insert_data fails py_float files force_reload s = (s', out)"
  shows "(s' = s \<and> out \<noteq> [Data_inserted]) \<or>
     (\<exists>company_rows financial_rows w.
        companies_csv files = Some company_rows \<and> financial_csv files = Some financial_rows
        \<and> merge_companies fails company_rows s = Inr w
        \<and> merge_financials fails py_float financial_rows w = Inr s' \<and> out = [Data_inserted])"
proof (cases "force_reload \<or> length (companies s) = 0")
  case False
  with assms show ?thesis by (auto simp: insert_data_def)
next
  case guard: True
  show ?thesis
  proof (cases "companies_csv files")
    case None
    with guard assms show ?thesis by (auto simp: insert_data_def)
  next
    case c: (Some company_rows)
    show ?thesis
    proof (cases "financial_csv files")
      case None
      with guard c assms show ?thesis by (auto simp: insert_data_def)
    next
      case f: (Some financial_rows)
      show ?thesis
      proof (cases "try_bind (try_bind (merge_companies fails company_rows s)
                        (merge_financials fails py_float financial_rows))
                     (session_commit fails)")
        case (Inl e)
        with guard c f assms show ?thesis by (auto simp: insert_data_def)
      next
        case (Inr s'')
        with guard c f assms have eq: "s' = s''" "out = [Data_inserted]"
          by (auto simp: insert_data_def)
        from Inr obtain w where "merge_companies fails company_rows s = Inr w"
          and "merge_financials fails py_float financial_rows w = Inr s''"
          by (auto simp: try_bind_Inr session_commit_def attempt_Inr)
        with c f eq show ?thesis by blast
      qed
    qed
  qed
qed

lemma map_filter_member: "x \<in> set xs \<Longrightarrow> f x = Some y \<Longrightarrow> y \<in> set (List.map_filter f xs)"
  by (induction xs) (auto split: option.splits)

lemma company_file_tickers_member:
  "companies_csv files = Some rows \<Longrightarrow> row \<in> set rows \<Longrightarrow> row_get row ''ticker'' = Some t \<Longrightarrow>
   t \<in> set (company_file_tickers files)"
  by (simp add: company_file_tickers_def map_filter_member)

lemma financial_file_tickers_member:
  "financial_csv files = Some rows \<Longrightarrow> row \<in> set rows \<Longrightarrow> row ''ticker'' = Some (Some t) \<Longrightarrow>
   t \<in> set (financial_file_tickers files)"
  by (simp add: financial_file_tickers_def map_filter_member [of row] row_get_def)

text \<open>
  Claim C10. A forced load merges: in both tables the rows whose ticker does not occur in
  the respective file are, after \<^verbatim>\<open>insert_data\<close> with \<^verbatim>\<open>force_reload\<close>, the same rows
  in the same order as before, whether the load commits or is rolled back.
\<close>

theorem insert_data_forced_merges:
  "filter (\<lambda>c. company.ticker c \<notin> set (company_file_tickers files))
       (companies (fst (insert_data fails py_float files True s)))
     = filter (\<lambda>c. company.ticker c \<notin> set (company_file_tickers files)) (companies s)
   \<and> filter (\<lambda>f. financial.ticker f \<notin> set (financial_file_tickers files))
       (financials (fst (insert_data fails py_float files True s)))
     = filter (\<lambda>f. financial.ticker f \<notin> set (financial_file_tickers files)) (financials s)"
proof -
  obtain s' out where run: "insert_data fails py_float files True s = (s', out)"
    by (cases "insert_data fails py_float files True s")
  from insert_data_result [OF run] show ?thesis
  proof
    assume "s' = s \<and> out \<noteq> [Data_inserted]"
    with run show ?thesis by simp
  next
    assume "\<exists>company_rows financial_rows w.
        companies_csv files = Some company_rows \<and> financial_csv files = Some financial_rows
        \<and> merge_companies fails company_rows s = Inr w
        \<and> merge_financials fails py_float financial_rows w = Inr s' \<and> out = [Data_inserted]"
    then obtain company_rows financial_rows w where
      c: "companies_csv files = Some company_rows" and
      f: "financial_csv files = Some financial_rows" and
      mc: "merge_companies fails company_rows s = Inr w" and
      mf: "merge_financials fails py_float financial_rows w = Inr s'"
      by blast
    have "\<forall>row \<in> set company_rows. \<forall>t. row_get row ''ticker'' = Some t
        \<longrightarrow> \<not> t \<notin> set (company_file_tickers files)"
      using c by (simp add: company_file_tickers_member)
    with mc have "filter (\<lambda>c. company.ticker c \<notin> set (company_file_tickers files)) (companies w)
      = filter (\<lambda>c. company.ticker c \<notin> set (company_file_tickers files)) (companies s)"
      by (rule merge_companies_other)
    moreover have "companies s' = companies w"
      using mf by (rule merge_financials_frame)
    moreover have "\<forall>row \<in> set financial_rows. \<forall>t. row ''ticker'' = Some (Some t)
        \<longrightarrow> \<not> t \<notin> set (financial_file_tickers files)"
      using f by (simp add: financial_file_tickers_member)
    with mf have "filter (\<lambda>f. financial.ticker f \<notin> set (financial_file_tickers files)) (financials s')
      = filter (\<lambda>f. financial.ticker f \<notin> set (financial_file_tickers files)) (financials w)"
      by (rule merge_financials_other)
    moreover have "financials w = financials s"
      using mc by (rule merge_companies_frame)
    ultimately show ?thesis
      using run by simp
  qed
qed


theorem insert_data_forced_merges_witness:
  "company_file_tickers test_files = [''AAPL''] \<and> financial_file_tickers test_files = [''AAPL'']
   \<and> filter (\<lambda>c. company.ticker c \<notin> set (company_file_tickers test_files))
       (companies (fst (insert_data no_fault sample_float test_files True test_store)))
     = [goog_company]
   \<and> filter (\<lambda>f. financial.ticker f \<notin> set (financial_file_tickers test_files))
       (financials (fst (insert_data no_fault sample_float test_files True test_store)))
     = [goog]"
  using insert_data_forced_merges [of test_files no_fault sample_float test_store]
  by (simp add: company_file_tickers_def financial_file_tickers_def test_files_def
      row_get_def aapl_company_row_def aapl_financial_row_def
      test_store_def aapl_company_def goog_company_def aapl_def goog_def)



lemma create_company_result:
  assumes "\<not> fails Merge_company" "\<not> fails Merge_financial" "\<not> fails Commit"
  shows "create_company fails t n sec v1 v2 v3 v4 v5 v6 v7 v8 v9 s
     = (s\<lparr>companies := merge_row company.ticker
              \<lparr>company.ticker = t, name = Some n, sector = Some sec\<rparr> (companies s),
           financials := merge_row financial.ticker
              \<lparr>financial.ticker = t, ebitda = Some v1, sales = Some v2, net_profit = Some v3,
               market_price = Some v4, net_debt = Some v5, assets = Some v6, equity = Some v7,
               cash_equivalents = Some v8, liabilities = Some v9\<rparr> (financials s)\<rparr>,
        [Company_created])"
  using assms
  by (simp add: create_company_def Let_def session_merge_company_def
      session_merge_financial_def session_commit_def attempt_def)

lemma create_company_failure:
  assumes "fails Merge_company \<or> fails Merge_financial \<or> fails Commit"
  shows "create_company fails t n sec v1 v2 v3 v4 v5 v6 v7 v8 v9 s
     = (s, [An_error_occurred OperationalError])"
  using assms
  by (auto simp: create_company_def Let_def session_merge_company_def
      session_merge_financial_def session_commit_def attempt_def)

lemma find_key_iff: "find (\<lambda>x. key x = k) table \<noteq> None \<longleftrightarrow> k \<in> set (map key table)"
  by (induction table) auto










lemma find_filter_other:
  "find (\<lambda>x. key x = t) (filter (\<lambda>x. key x \<noteq> k) table)
     = (if t = k then None else find (\<lambda>x. key x = t) table)"
  by (induction table) auto

lemma merge_companies_keeps:
  "merge_companies fails rows w = Inr w' \<Longrightarrow> t \<in> set (map company.ticker (companies w)) \<Longrightarrow>
   t \<in> set (map company.ticker (companies w'))"
proof (induction rows arbitrary: w)
  case Nil
  then show ?case by simp
next
  case (Cons row rows)
  from Cons.prems(1) obtain c where
    rest: "merge_companies fails rows (w\<lparr>companies := merge_row company.ticker c (companies w)\<rparr>) = Inr w'"
    unfolding merge_companies_Cons by blast
  have "t \<in> set (map company.ticker
      (companies (w\<lparr>companies := merge_row company.ticker c (companies w)\<rparr>)))"
    using Cons.prems(2) by (simp add: merge_row_keys)
  with rest show ?case by (rule Cons.IH)
qed

lemma company_row_iff: "company_row t s \<noteq> None \<longleftrightarrow> t \<in> set (map company.ticker (companies s))"
  unfolding company_row_def by (rule find_key_iff)

lemma insert_data_keeps:
  assumes "company_row t s \<noteq> None"
  shows "company_row t (fst (insert_data fails py_float files force_reload s)) \<noteq> None"
proof -
  obtain s' out where run: "insert_data fails py_float files force_reload s = (s', out)"
    by (cases "insert_data fails py_float files force_reload s")
  from insert_data_result [OF run] show ?thesis
  proof
    assume "s' = s \<and> out \<noteq> [Data_inserted]"
    with run assms show ?thesis by simp
  next
    assume "\<exists>company_rows financial_rows w.
        companies_csv files = Some company_rows \<and> financial_csv files = Some financial_rows
        \<and> merge_companies fails company_rows s = Inr w
        \<and> merge_financials fails py_float financial_rows w = Inr s' \<and> out = [Data_inserted]"
    then obtain company_rows financial_rows w where
      mc: "merge_companies fails company_rows s = Inr w" and
      mf: "merge_financials fails py_float financial_rows w = Inr s'"
      by blast
    from assms have "t \<in> set (map company.ticker (companies s))"
      by (simp only: company_row_iff)
    with mc have "t \<in> set (map company.ticker (companies w))"
      by (rule merge_companies_keeps)
    moreover have "companies s' = companies w"
      using mf by (rule merge_financials_frame)
    ultimately have "t \<in> set (map company.ticker (companies s'))"
      by simp
    then have "company_row t s' \<noteq> None"
      by (simp only: company_row_iff)
    with run show ?thesis by simp
  qed
qed

lemma clear_database_result:
  "fst (clear_database fails s) = s
   \<or> fst (clear_database fails s) = \<lparr>companies = [], financials = []\<rparr>"
  by (cases s)
     (simp add: clear_database_def query_financial_delete_def query_company_delete_def
        session_commit_def attempt_def)

lemma create_company_keeps:
  assumes "company_row t s \<noteq> None"
  shows "company_row t (fst (create_company fails k n sec v1 v2 v3 v4 v5 v6 v7 v8 v9 s)) \<noteq> None"
proof (cases "fails Merge_company \<or> fails Merge_financial \<or> fails Commit")
  case True
  then show ?thesis
    using assms by (simp add: create_company_failure)
next
  case False
  from assms have "t \<in> set (map company.ticker (companies s))"
    by (simp only: company_row_iff)
  then have "t \<in> set (map company.ticker
      (companies (fst (create_company fails k n sec v1 v2 v3 v4 v5 v6 v7 v8 v9 s))))"
    using False by (simp add: create_company_result merge_row_keys)
  then show ?thesis
    by (simp only: company_row_iff)
qed

lemma update_company_frame:
  "companies (fst (update_company fails ilike company_name company_idx
      v1 v2 v3 v4 v5 v6 v7 v8 v9 s)) = companies s"
  by (auto simp: update_company_def Let_def session_commit_def attempt_def
      split: prod.splits option.splits sum.splits)

lemma delete_company_result:
  assumes "company_search ilike company_name company_idx (companies s) = (shown, Some c)"
      and "\<not> fails Delete_company" and "\<not> fails Commit"
  shows "delete_company fails ilike company_name company_idx s
     = (\<lparr>companies = filter (\<lambda>x. company.ticker x \<noteq> company.ticker c) (companies s),
         financials = filter (\<lambda>f. financial.ticker f \<noteq> company.ticker c) (financials s)\<rparr>,
        shown @ [Company_deleted])"
  using assms by (simp add: delete_company_def session_delete_def session_commit_def attempt_def)

lemma delete_company_cases:
  "fst (delete_company fails ilike company_name company_idx s) = s
   \<or> (\<exists>c :: company. fst (delete_company fails ilike company_name company_idx s)
        = \<lparr>companies = filter (\<lambda>x. company.ticker x \<noteq> company.ticker c) (companies s),
            financials = filter (\<lambda>f. financial.ticker f \<noteq> company.ticker c) (financials s)\<rparr>)"
  by (auto simp: delete_company_def session_delete_def session_commit_def attempt_def
      split: prod.splits option.splits sum.splits)

lemma step_cascade:
  assumes "step s s'" and "company_row t s \<noteq> None" and "company_row t s' = None"
  shows "financial_row t s' = None"
  using assms(1)
proof cases
  case (step_load fails py_float files force_reload)
  with assms(2,3) insert_data_keeps [OF assms(2)] show ?thesis by simp
next
  case (step_clear fails)
  with assms(2,3) clear_database_result [of fails s] show ?thesis
    by (auto simp: financial_row_def)
next
  case (step_create fails k n sec v1 v2 v3 v4 v5 v6 v7 v8 v9)
  with assms(2,3) create_company_keeps [OF assms(2)] show ?thesis by simp
next
  case (step_update fails ilike company_name company_idx v1 v2 v3 v4 v5 v6 v7 v8 v9)
  with assms(2,3) update_company_frame [of fails ilike company_name company_idx
      v1 v2 v3 v4 v5 v6 v7 v8 v9 s]
  show ?thesis by (simp add: company_row_def)
next
  case (step_delete fails ilike company_name company_idx)
  from delete_company_cases [of fails ilike company_name company_idx s] show ?thesis
  proof
    assume "fst (delete_company fails ilike company_name company_idx s) = s"
    with step_delete assms(2,3) show ?thesis by simp
  next
    assume "\<exists>c :: company. fst (delete_company fails ilike company_name company_idx s)
        = \<lparr>companies = filter (\<lambda>x. company.ticker x \<noteq> company.ticker c) (companies s),
            financials = filter (\<lambda>f. financial.ticker f \<noteq> company.ticker c) (financials s)\<rparr>"
    then obtain c :: company where "fst (delete_company fails ilike company_name company_idx s)
        = \<lparr>companies = filter (\<lambda>x. company.ticker x \<noteq> company.ticker c) (companies s),
            financials = filter (\<lambda>f. financial.ticker f \<noteq> company.ticker c) (financials s)\<rparr>" ..
    with step_delete have s': "s' = \<lparr>companies = filter (\<lambda>x. company.ticker x \<noteq> company.ticker c) (companies s),
            financials = filter (\<lambda>f. financial.ticker f \<noteq> company.ticker c) (financials s)\<rparr>"
      by simp
    show ?thesis
    proof (cases "t = company.ticker c")
      case True
      with s' show ?thesis by (simp add: financial_row_def find_filter_other)
    next
      case False
      with s' assms(2,3) show ?thesis by (simp add: company_row_def find_filter_other)
    qed
  qed
qed

text \<open>
  Claim C8. No operation that writes (load, clear, create, update, delete) removes a company
  row and leaves a financial row of the same ticker behind. In particular, when no database
  call raises, \<^verbatim>\<open>delete_company\<close> prints the success line and afterwards neither table has
  a row with the ticker of the selected company, while the rows of every other ticker are
  as before.
\<close>

theorem delete_company_cascades:
  "(step s s' \<and> company_row t s \<noteq> None \<and> company_row t s' = None
      \<longrightarrow> financial_row t s' = None)
   \<and> (company_search ilike company_name company_idx (companies s) = (shown, Some c)
      \<and> \<not> fails Delete_company \<and> \<not> fails Commit
      \<longrightarrow> (\<exists>s2. delete_company fails ilike company_name company_idx s
                    = (s2, shown @ [Company_deleted])
            \<and> company_row (company.ticker c) s2 = None
            \<and> financial_row (company.ticker c) s2 = None
            \<and> (\<forall>k. k \<noteq> company.ticker c
                  \<longrightarrow> company_row k s2 = company_row k s
                    \<and> financial_row k s2 = financial_row k s)))"
proof (intro conjI impI)
  assume "step s s' \<and> company_row t s \<noteq> None \<and> company_row t s' = None"
  then show "financial_row t s' = None"
    using step_cascade by blast
next
  assume a: "company_search ilike company_name company_idx (companies s) = (shown, Some c)
      \<and> \<not> fails Delete_company \<and> \<not> fails Commit"
  let ?s2 = "\<lparr>companies = filter (\<lambda>x. company.ticker x \<noteq> company.ticker c) (companies s),
         financials = filter (\<lambda>f. financial.ticker f \<noteq> company.ticker c) (financials s)\<rparr>"
  from a have run: "delete_company fails ilike company_name company_idx s
      = (?s2, shown @ [Company_deleted])"
    by (simp add: delete_company_result)
  have gone: "company_row (company.ticker c) ?s2 = None"
    "financial_row (company.ticker c) ?s2 = None"
    by (simp_all add: company_row_def financial_row_def find_filter_other)
  have rest: "\<forall>k. k \<noteq> company.ticker c
      \<longrightarrow> company_row k ?s2 = company_row k s \<and> financial_row k ?s2 = financial_row k s"
    by (simp add: company_row_def financial_row_def find_filter_other)
  from run gone rest
  show "\<exists>s2. delete_company fails ilike company_name company_idx s
                    = (s2, shown @ [Company_deleted])
            \<and> company_row (company.ticker c) s2 = None
            \<and> financial_row (company.ticker c) s2 = None
            \<and> (\<forall>k. k \<noteq> company.ticker c
                  \<longrightarrow> company_row k s2 = company_row k s
                    \<and> financial_row k s2 = financial_row k s)"
    by blast
qed

theorem delete_company_cascades_witness:
  "step test_store \<lparr>companies = [aapl_company], financials = [aapl]\<rparr>
   \<and> company_row ''GOOG'' test_store \<noteq> None
   \<and> financial_row ''GOOG'' test_store = Some goog
   \<and> company_row ''GOOG'' \<lparr>companies = [aapl_company], financials = [aapl]\<rparr> = None
   \<and> financial_row ''GOOG'' \<lparr>companies = [aapl_company], financials = [aapl]\<rparr> = None
   \<and> company_search any_name ''Goo'' (Some 1) (companies test_store)
       = ([Company_choice 0 (Some ''Apple Inc.''), Company_choice 1 (Some ''Google LLC'')],
          Some goog_company)
   \<and> \<not> no_fault Delete_company \<and> \<not> no_fault Commit
   \<and> delete_company no_fault any_name ''Goo'' (Some 1) test_store
       = (\<lparr>companies = [aapl_company], financials = [aapl]\<rparr>,
          [Company_choice 0 (Some ''Apple Inc.''), Company_choice 1 (Some ''Google LLC''),
           Company_deleted])"
proof -
  let ?shown = "[Company_choice 0 (Some ''Apple Inc.''), Company_choice 1 (Some ''Google LLC'')]"
  let ?after = "\<lparr>companies = [aapl_company], financials = [aapl]\<rparr>"
  have search: "company_search any_name ''Goo'' (Some 1) (companies test_store)
      = (?shown, Some goog_company)"
    by (simp add: company_search_def test_store_def any_name_def Let_def aapl_company_def
        goog_company_def upt_rec)
  have nf: "\<not> no_fault Delete_company" "\<not> no_fault Commit"
    by (simp_all add: no_fault_def)
  have del: "delete_company no_fault any_name ''Goo'' (Some 1) test_store
      = (?after, ?shown @ [Company_deleted])"
    using search nf
    by (simp add: delete_company_def session_delete_def session_commit_def attempt_def)
       (simp add: test_store_def aapl_company_def goog_company_def aapl_def goog_def)
  have st: "step test_store ?after"
    using step_delete [of test_store no_fault any_name "''Goo''" "Some 1"] del by simp
  have before: "company_row ''GOOG'' test_store \<noteq> None"
    "financial_row ''GOOG'' test_store = Some goog"
    by (simp_all add: company_row_def financial_row_def test_store_def aapl_company_def
        goog_company_def aapl_def goog_def)
  have after: "company_row ''GOOG'' ?after = None"
    by (simp add: company_row_def aapl_company_def)
  note inst = delete_company_cascades [where s = test_store and s' = ?after and t = "''GOOG''"
      and ilike = any_name and company_name = "''Goo''" and company_idx = "Some 1"
      and shown = ?shown and c = goog_company and fails = no_fault]
  from inst st before after search nf del show ?thesis
    by simp
qed

lemma replace_keys:
  "key r = k \<Longrightarrow> map (\<lambda>x. key (if key x = k then r else x)) table = map key table"
  by (induction table) simp_all

lemma step_primary_keys:
  assumes "step s s'" and "primary_keys s"
  shows "primary_keys s'"
  using assms(1)
proof cases
  case (step_load fails py_float files force_reload)
  obtain out where run: "insert_data fails py_float files force_reload s = (s', out)"
    using step_load by (cases "insert_data fails py_float files force_reload s") simp
  from insert_data_result [OF run] show ?thesis
  proof
    assume "s' = s \<and> out \<noteq> [Data_inserted]"
    with assms(2) show ?thesis by simp
  next
    assume "\<exists>company_rows financial_rows w.
        companies_csv files = Some company_rows \<and> financial_csv files = Some financial_rows
        \<and> merge_companies fails company_rows s = Inr w
        \<and> merge_financials fails py_float financial_rows w = Inr s' \<and> out = [Data_inserted]"
    then obtain company_rows financial_rows w where
      mc: "merge_companies fails company_rows s = Inr w" and
      mf: "merge_financials fails py_float financial_rows w = Inr s'"
      by blast
    from assms(2) have dc: "distinct (map company.ticker (companies s))"
      and df: "distinct (map financial.ticker (financials s))"
      by (simp_all add: primary_keys_def)
    have "distinct (map company.ticker (companies w))"
      using mc dc by (rule merge_companies_distinct)
    moreover have "companies s' = companies w"
      using mf by (rule merge_financials_frame)
    moreover have "financials w = financials s"
      using mc by (rule merge_companies_frame)
    with df have "distinct (map financial.ticker (financials w))"
      by simp
    with mf have "distinct (map financial.ticker (financials s'))"
      by (rule merge_financials_distinct)
    ultimately show ?thesis
      by (simp add: primary_keys_def)
  qed
next
  case (step_clear fails)
  with assms(2) clear_database_result [of fails s] show ?thesis
    by (auto simp: primary_keys_def)
next
  case (step_create fails k n sec v1 v2 v3 v4 v5 v6 v7 v8 v9)
  show ?thesis
  proof (cases "fails Merge_company \<or> fails Merge_financial \<or> fails Commit")
    case True
    with step_create assms(2) show ?thesis by (simp add: create_company_failure)
  next
    case False
    with step_create assms(2) show ?thesis
      by (simp add: create_company_result primary_keys_def merge_row_distinct)
  qed
next
  case (step_update fails ilike company_name company_idx v1 v2 v3 v4 v5 v6 v7 v8 v9)
  with assms(2) show ?thesis
    by (auto simp: update_company_def Let_def session_commit_def attempt_def primary_keys_def
        replace_keys comp_def split: prod.splits option.splits sum.splits)
next
  case (step_delete fails ilike company_name company_idx)
  with assms(2) delete_company_cases [of fails ilike company_name company_idx s] show ?thesis
    by (auto simp: primary_keys_def distinct_map_filter)
qed

lemma reachable_primary_keys: "reachable s \<Longrightarrow> primary_keys s"
proof (induction rule: reachable.induct)
  case reachable_empty
  show ?case by (simp add: primary_keys_def)
next
  case (reachable_step s s')
  from reachable_step.hyps(2) reachable_step.IH show ?case
    by (rule step_primary_keys)
qed

end
